theory Spec2Isabelle
  imports Complex_Main
begin

section \<open>Data model of \<open>collaborative_recommender.py\<close>\<close>

text \<open>
  The module works on two pandas frames. A frame is modelled by its labels and its rows.
  The rating matrix has user identifiers as row labels, tool identifiers as column labels
  and numeric entries; the constructor coerces the entries with \<open>astype(float)\<close>. Entries
  are modelled as exact rationals: sums and means are the mathematical ones, and NaN and
  the infinities are not values of the model. The tool catalogue is a frame of cells with
  named columns.
\<close>

datatype cell = IntCell int | StrCell string

record rating_frame =
  frame_index :: "int list"
  frame_columns :: "cell list"
  frame_values :: "rat list list"

record tools_frame =
  tools_columns :: "string list"
  tools_rows :: "cell list list"

type_synonym pydict = "(string \<times> cell) list"

type_synonym series = "(cell \<times> rat) list"

text \<open>
  Every exception the module raises itself is a \<open>ValueError\<close>; the constructors of
  \<open>reason\<close> stand for the messages. \<open>FitEmpty\<close>, \<open>NeighborsNotPositive\<close> and
  \<open>TooManyNeighbors\<close> are the \<open>ValueError\<close>s of scikit-learn's \<open>NearestNeighbors\<close>
  (\<open>fit\<close> on a frame without rows or without columns; \<open>kneighbors\<close> asked for fewer than
  one or for more neighbours than there are fitted rows). \<open>KeyError\<close> is the lookup of a
  missing column or dictionary key. \<open>TypeError\<close> is what \<open>fit\<close> raises for a frame whose
  column labels are partly strings and partly not.
\<close>

datatype reason =
    MissingToolIds
  | DuplicateToolIds
  | NNeighborsTooSmall
  | NRecommendationsTooSmall
  | UserNotFound int
  | FitEmpty
  | NeighborsNotPositive int
  | TooManyNeighbors int nat

datatype error = ValueError reason | KeyError string | TypeError

text \<open>
  The specification sorts the failures into three classes (its section 7); every other
  failure comes from a library call.
\<close>

datatype error_class = ConfigurationError | DataIntegrityError | NotFoundError | LibraryError

fun classify :: "error \<Rightarrow> error_class" where
  "classify (ValueError MissingToolIds) = DataIntegrityError"
| "classify (ValueError DuplicateToolIds) = DataIntegrityError"
| "classify (ValueError NNeighborsTooSmall) = ConfigurationError"
| "classify (ValueError NRecommendationsTooSmall) = ConfigurationError"
| "classify (ValueError (UserNotFound u)) = NotFoundError"
| "classify (ValueError FitEmpty) = LibraryError"
| "classify (ValueError (NeighborsNotPositive m)) = LibraryError"
| "classify (ValueError (TooManyNeighbors m n)) = LibraryError"
| "classify (KeyError c) = LibraryError"
| "classify TypeError = LibraryError"

record recommender =
  user_item_matrix :: rating_frame
  tools_df :: tools_frame
  n_neighbors :: int
  model :: "rat list list"
  tool_id_to_details :: "(cell \<times> pydict) list"
  all_tool_ids :: "cell set"

section \<open>Frame operations\<close>

fun position :: "'a \<Rightarrow> 'a list \<Rightarrow> nat option" where
  "position x [] = None"
| "position x (y # ys) = (if x = y then Some 0 else map_option Suc (position x ys))"

text \<open>
  \<open>tools_df['tool_id']\<close>: the cells of the column at position \<open>j\<close>. The position
  comes from \<open>position ''tool_id'' (tools_columns df)\<close>; a frame without that column
  raises \<open>KeyError\<close>.
\<close>

definition column_cells :: "tools_frame \<Rightarrow> nat \<Rightarrow> cell list" where
  "column_cells df j = map (\<lambda>row. row ! j) (tools_rows df)"

text \<open>\<open>df.to_dict('records')\<close> on a list of rows of the catalogue.\<close>

definition to_dict_records :: "string list \<Rightarrow> cell list list \<Rightarrow> pydict list" where
  "to_dict_records cols rows = map (zip cols) rows"

text \<open>\<open>tools_df.set_index('tool_id').to_dict('index')\<close>.\<close>

definition to_dict_index :: "tools_frame \<Rightarrow> nat \<Rightarrow> (cell \<times> pydict) list" where
  "to_dict_index df j =
     map (\<lambda>row. (row ! j, filter (\<lambda>(c, v). c \<noteq> ''tool_id'') (zip (tools_columns df) row)))
       (tools_rows df)"

text \<open>\<open>user_item_matrix.loc[user_id]\<close>, after the membership test on the index.\<close>

definition loc :: "rating_frame \<Rightarrow> int \<Rightarrow> rat list option" where
  "loc m uid = map_option (\<lambda>i. frame_values m ! i) (position uid (frame_index m))"

text \<open>\<open>user_item_matrix.iloc[indices]\<close>.\<close>

definition iloc :: "rating_frame \<Rightarrow> nat list \<Rightarrow> rat list list" where
  "iloc m ps = map (\<lambda>i. frame_values m ! i) ps"

text \<open>
  \<open>DataFrame.mean()\<close> (over the rows, one value a column). The mean of no rows is NaN in
  pandas; both callers pass at least one row (lemmas \<open>kneighbors_Inr\<close> and
  \<open>loc_rows_nonempty\<close> below).
\<close>

definition column_mean :: "rat list list \<Rightarrow> nat \<Rightarrow> rat" where
  "column_mean rows j = sum_list (map (\<lambda>row. row ! j) rows) / of_nat (length rows)"

definition mean_frame :: "cell list \<Rightarrow> rat list list \<Rightarrow> series" where
  "mean_frame cols rows = map (\<lambda>j. (cols ! j, column_mean rows j)) [0..<length cols]"

text \<open>
  \<open>Series.sort_values(ascending=False)\<close>: descending by value, entries of equal value in
  their prior relative order. \<open>Series.head(n)\<close> for \<open>n \<ge> 1\<close>.
\<close>

definition sort_values_desc :: "series \<Rightarrow> series" where
  "sort_values_desc s = sort_key (\<lambda>(c, v). - v) s"

definition head :: "int \<Rightarrow> 'a list \<Rightarrow> 'a list" where
  "head n xs = take (nat n) xs"

definition all_zero :: "rat list \<Rightarrow> bool" where
  "all_zero v = list_all (\<lambda>x. x = 0) v"

definition all_nonzero :: "rat list \<Rightarrow> bool" where
  "all_nonzero v = list_all (\<lambda>x. x \<noteq> 0) v"

section \<open>The nearest-neighbour index\<close>

text \<open>
  \<open>NearestNeighbors(metric='cosine', algorithm='brute')\<close>. \<open>fit\<close> keeps the rows; it
  refuses a frame whose column labels mix strings with other labels, and then a frame
  without rows or without columns. \<open>kneighbors(q, m)\<close> refuses \<open>m < 1\<close>
  and \<open>m\<close> greater than the number of fitted rows; otherwise it returns the positions of
  the \<open>m\<close> rows of least cosine distance to the query, nearest first.

  The library computes the distance as \<open>cosine_distance\<close> below: both vectors are divided
  by their norm (a norm of zero is replaced by one), and one minus their product is
  clipped to the interval from 0 to 2. That value has a square root in it. For a fixed
  query the distance falls exactly when the rational \<open>similarity_key\<close> rises (lemma
  \<open>cosine_distance_order\<close>), and \<open>kneighbors\<close> sorts by that key, so that it can be
  evaluated; lemma \<open>kneighbors_nearest_first\<close> states the result in terms of the
  distance.

  The library promises no order among rows at equal distance, and its floating-point
  distances may differ for rows whose exact distances are equal. The model keeps rows of
  equal exact distance in the order of their positions, so on such inputs the library may
  list the tied rows in another order. Nothing general below depends on that order: the
  general lemmas use only the length, the distinctness and the range of the result, the
  failure of the query, and the order by distance. Where a result is evaluated on rows
  at equal distance (the rows \<open>[2, 0]\<close> and \<open>[5, 0]\<close> further down), lemma
  \<open>twins_any_tie_order\<close> covers every order the tied rows can come in.
\<close>

definition dot :: "rat list \<Rightarrow> rat list \<Rightarrow> rat" where
  "dot u v = sum_list (map2 (*) u v)"

definition similarity_key :: "rat list \<Rightarrow> rat list \<Rightarrow> rat" where
  "similarity_key q v =
     (let d = dot q v; n = dot v v in if n = 0 then 0 else sgn d * d * d / n)"

definition row_norm :: "rat list \<Rightarrow> real" where
  "row_norm v = sqrt (of_rat (dot v v))"

definition unit_norm :: "rat list \<Rightarrow> real" where
  "unit_norm v = (if row_norm v = 0 then 1 else row_norm v)"

definition normalize_row :: "rat list \<Rightarrow> real list" where
  "normalize_row v = map (\<lambda>x. of_rat x / unit_norm v) v"

definition cosine_distance :: "rat list \<Rightarrow> rat list \<Rightarrow> real" where
  "cosine_distance q v =
     min 2 (max 0 (1 - sum_list (map2 (*) (normalize_row q) (normalize_row v))))"

fun is_string_label :: "cell \<Rightarrow> bool" where
  "is_string_label (StrCell s) = True"
| "is_string_label (IntCell i) = False"

definition mixed_labels :: "cell list \<Rightarrow> bool" where
  "mixed_labels cols \<longleftrightarrow>
     list_ex is_string_label cols \<and> list_ex (\<lambda>c. \<not> is_string_label c) cols"

definition fit :: "rating_frame \<Rightarrow> error + rat list list" where
  "fit m =
     (if mixed_labels (frame_columns m) then Inl TypeError
      else if frame_values m = [] \<or> frame_columns m = [] then Inl (ValueError FitEmpty)
      else Inr (frame_values m))"

definition kneighbors :: "rat list list \<Rightarrow> rat list \<Rightarrow> int \<Rightarrow> error + nat list" where
  "kneighbors fitted q m =
     (if m \<le> 0 then Inl (ValueError (NeighborsNotPositive m))
      else if m > int (length fitted) then Inl (ValueError (TooManyNeighbors m (length fitted)))
      else Inr (take (nat m)
             (sort_key (\<lambda>i. - similarity_key q (fitted ! i)) [0..<length fitted])))"

section \<open>The recommender\<close>

text \<open>\<open>CollaborativeRecommender.__init__\<close>, with its checks in the order of the source.\<close>

definition init :: "rating_frame \<Rightarrow> tools_frame \<Rightarrow> int \<Rightarrow> error + recommender" where
  "init uim tdf k =
     (case position ''tool_id'' (tools_columns tdf) of
        None \<Rightarrow> Inl (KeyError ''tool_id'')
      | Some j \<Rightarrow>
          if \<not> set (frame_columns uim) \<subseteq> set (column_cells tdf j)
          then Inl (ValueError MissingToolIds)
          else if \<not> distinct (column_cells tdf j) then Inl (ValueError DuplicateToolIds)
          else if k < 1 then Inl (ValueError NNeighborsTooSmall)
          else if \<not> set (frame_columns uim) \<subseteq> set (column_cells tdf j)
          then Inl (ValueError MissingToolIds)
          else (case fit uim of
                  Inl e \<Rightarrow> Inl e
                | Inr fitted \<Rightarrow>
                    Inr \<lparr> user_item_matrix = uim, tools_df = tdf, n_neighbors = k,
                          model = fitted,
                          tool_id_to_details = to_dict_index tdf j,
                          all_tool_ids = set (column_cells tdf j) \<rparr>))"

text \<open>
  Lines 103 to 109 of \<open>get_recommendation_scores\<close>: the clamped neighbour count, the
  query for one more, and the removal of the first match.
\<close>

definition scores_neighbor_request :: "recommender \<Rightarrow> int" where
  "scores_neighbor_request r =
     min (n_neighbors r) (int (length (frame_values (user_item_matrix r)))) + 1"

definition scores_similar_users :: "recommender \<Rightarrow> rat list \<Rightarrow> error + nat list" where
  "scores_similar_users r user_vector =
     (case kneighbors (model r) user_vector (scores_neighbor_request r) of
        Inl e \<Rightarrow> Inl e
      | Inr indices \<Rightarrow> Inr (tl indices))"

definition get_recommendation_scores :: "recommender \<Rightarrow> int \<Rightarrow> error + series" where
  "get_recommendation_scores r user_id =
     (case loc (user_item_matrix r) user_id of
        None \<Rightarrow> Inl (ValueError (UserNotFound user_id))
      | Some user_vector \<Rightarrow>
          if all_zero user_vector
          then Inr (mean_frame (frame_columns (user_item_matrix r))
                      (frame_values (user_item_matrix r)))
          else (case scores_similar_users r user_vector of
                  Inl e \<Rightarrow> Inl e
                | Inr similar \<Rightarrow>
                    Inr (mean_frame (frame_columns (user_item_matrix r))
                           (iloc (user_item_matrix r) similar))))"

text \<open>
  Lines 156 to 164 of \<open>get_recommendations\<close>: the clamped count is computed and not
  used; the query asks for \<open>self.n_neighbors + 1\<close>.
\<close>

definition recs_neighbor_request :: "recommender \<Rightarrow> int" where
  "recs_neighbor_request r = n_neighbors r + 1"

definition recs_similar_users :: "recommender \<Rightarrow> rat list \<Rightarrow> error + nat list" where
  "recs_similar_users r user_vector =
     (case kneighbors (model r) user_vector (recs_neighbor_request r) of
        Inl e \<Rightarrow> Inl e
      | Inr indices \<Rightarrow> Inr (tl indices))"

text \<open>The labels of the columns the user rated above zero, and \<open>Series.drop\<close>.\<close>

definition user_rated_tools :: "cell list \<Rightarrow> rat list \<Rightarrow> cell list" where
  "user_rated_tools cols row = map fst (filter (\<lambda>(c, v). v > 0) (zip cols row))"

definition drop_labels :: "cell list \<Rightarrow> series \<Rightarrow> series" where
  "drop_labels labels s = filter (\<lambda>(c, v). c \<notin> set labels) s"

definition dict_get :: "pydict \<Rightarrow> string \<Rightarrow> cell" where
  "dict_get d key = (case map_of d key of None \<Rightarrow> StrCell [] | Some v \<Rightarrow> v)"

definition recommended_tool :: "cell \<Rightarrow> cell \<Rightarrow> pydict \<Rightarrow> pydict" where
  "recommended_tool tool_id name tool_details =
     [(''tool_id'', tool_id),
      (''tool_name'', name),
      (''category'', dict_get tool_details ''category''),
      (''features'', dict_get tool_details ''features''),
      (''cost'', dict_get tool_details ''cost''),
      (''description'', dict_get tool_details ''description''),
      (''url'', dict_get tool_details ''url''),
      (''language'', dict_get tool_details ''language''),
      (''platform'', dict_get tool_details ''platform'')]"

text \<open>The loop of lines 187 to 202 over the selected tool identifiers.\<close>

fun resolve_tools :: "(cell \<times> pydict) list \<Rightarrow> cell list \<Rightarrow> error + pydict list" where
  "resolve_tools details [] = Inr []"
| "resolve_tools details (t # ts) =
     (case map_of details t of
        None \<Rightarrow> resolve_tools details ts
      | Some tool_details \<Rightarrow>
          (case map_of tool_details ''tool_name'' of
             None \<Rightarrow> Inl (KeyError ''tool_name'')
           | Some name \<Rightarrow>
               (case resolve_tools details ts of
                  Inl e \<Rightarrow> Inl e
                | Inr rest \<Rightarrow> Inr (recommended_tool t name tool_details # rest))))"

definition cold_start_recommendations :: "recommender \<Rightarrow> int \<Rightarrow> error + pydict list" where
  "cold_start_recommendations r n =
     (let tool_ratings = sort_values_desc
            (mean_frame (frame_columns (user_item_matrix r))
               (frame_values (user_item_matrix r)));
          top_recommendations = head n tool_ratings
      in case position ''tool_id'' (tools_columns (tools_df r)) of
           None \<Rightarrow> Inl (KeyError ''tool_id'')
         | Some j \<Rightarrow>
             Inr (to_dict_records (tools_columns (tools_df r))
                    (filter (\<lambda>row. row ! j \<in> fst ` set top_recommendations)
                       (tools_rows (tools_df r)))))"

definition top_tool_ids :: "recommender \<Rightarrow> rat list \<Rightarrow> nat list \<Rightarrow> int \<Rightarrow> cell list" where
  "top_tool_ids r user_vector similar n =
     (let mean_ratings = mean_frame (frame_columns (user_item_matrix r))
                           (iloc (user_item_matrix r) similar);
          rated = user_rated_tools (frame_columns (user_item_matrix r)) user_vector;
          potential_recommendations = drop_labels rated mean_ratings;
          sorted_recommendations = sort_values_desc potential_recommendations
      in map fst (head n sorted_recommendations))"

definition get_recommendations :: "recommender \<Rightarrow> int \<Rightarrow> int \<Rightarrow> error + pydict list" where
  "get_recommendations r user_id n_recommendations =
     (if n_recommendations < 1 then Inl (ValueError NRecommendationsTooSmall)
      else case loc (user_item_matrix r) user_id of
        None \<Rightarrow> Inl (ValueError (UserNotFound user_id))
      | Some user_vector \<Rightarrow>
          if all_zero user_vector then cold_start_recommendations r n_recommendations
          else if all_nonzero user_vector then Inr []
          else (case recs_similar_users r user_vector of
                  Inl e \<Rightarrow> Inl e
                | Inr similar \<Rightarrow>
                    resolve_tools (tool_id_to_details r)
                      (top_tool_ids r user_vector similar n_recommendations)))"

section \<open>Well-formed frames and example inputs\<close>

text \<open>
  A pandas frame is rectangular. The specification (its section 3) also takes the row
  labels and the column labels of the rating matrix to be unique; \<open>loc\<close> above is the
  row of a label only then.
\<close>

definition wf_frame :: "rating_frame \<Rightarrow> bool" where
  "wf_frame m \<longleftrightarrow>
     distinct (frame_index m) \<and> distinct (frame_columns m) \<and>
     length (frame_values m) = length (frame_index m) \<and>
     list_all (\<lambda>row. length row = length (frame_columns m)) (frame_values m)"

text \<open>The rating of a tool by a user in the matrix, for the statements below.\<close>

definition rated_above_zero :: "rating_frame \<Rightarrow> rat list \<Rightarrow> cell \<Rightarrow> bool" where
  "rated_above_zero m row t \<longleftrightarrow>
     list_ex (\<lambda>j. frame_columns m ! j = t \<and> row ! j > 0) [0..<length (frame_columns m)]"

definition example_tools :: tools_frame where
  "example_tools =
     \<lparr> tools_columns = [''tool_id'', ''tool_name'', ''category''],
       tools_rows = [[IntCell 10, StrCell ''Alpha'', StrCell ''stats''],
                     [IntCell 20, StrCell ''Beta'', StrCell ''plots'']] \<rparr>"

definition example_ratings :: "rat list list \<Rightarrow> rating_frame" where
  "example_ratings rows =
     \<lparr> frame_index = map int [1..<Suc (length rows)],
       frame_columns = [IntCell 10, IntCell 20],
       frame_values = rows \<rparr>"

text \<open>The instance that \<open>init\<close> builds from \<open>example_ratings rows\<close> and \<open>example_tools\<close>.\<close>

definition example_recommender :: "rat list list \<Rightarrow> int \<Rightarrow> recommender" where
  "example_recommender rows k =
     \<lparr> user_item_matrix = example_ratings rows, tools_df = example_tools, n_neighbors = k,
       model = rows,
       tool_id_to_details =
         [(IntCell 10, [(''tool_name'', StrCell ''Alpha''), (''category'', StrCell ''stats'')]),
          (IntCell 20, [(''tool_name'', StrCell ''Beta''), (''category'', StrCell ''plots'')])],
       all_tool_ids = {IntCell 10, IntCell 20} \<rparr>"

section \<open>Basic facts\<close>

lemma position_Some: "position x xs = Some i \<Longrightarrow> i < length xs \<and> xs ! i = x"
  by (induction xs arbitrary: i) (auto split: if_splits)

lemma position_None: "position x xs = None \<longleftrightarrow> x \<notin> set xs"
  by (induction xs) auto

lemma loc_row:
  "loc m uid = Some row \<Longrightarrow>
     \<exists>i. position uid (frame_index m) = Some i \<and> row = frame_values m ! i"
  by (auto simp: loc_def)

lemma loc_in_values:
  assumes "wf_frame m" "loc m uid = Some row"
  shows "row \<in> set (frame_values m)"
proof -
  from assms(2) obtain i where i: "position uid (frame_index m) = Some i"
    and row: "row = frame_values m ! i" using loc_row by blast
  from i have "i < length (frame_index m)" using position_Some by fastforce
  with assms(1) have "i < length (frame_values m)" by (simp add: wf_frame_def)
  with row show ?thesis by simp
qed

lemma loc_length:
  "wf_frame m \<Longrightarrow> loc m uid = Some row \<Longrightarrow> length row = length (frame_columns m)"
  using loc_in_values [of m uid row] by (auto simp: wf_frame_def list_all_iff)

lemma loc_rows_nonempty: "loc m uid = Some row \<Longrightarrow> wf_frame m \<Longrightarrow> frame_values m \<noteq> []"
  using loc_in_values [of m uid row] by auto

lemma init_Inr:
  assumes "init uim tdf k = Inr r"
  obtains j where "position ''tool_id'' (tools_columns tdf) = Some j"
    and "set (frame_columns uim) \<subseteq> set (column_cells tdf j)"
    and "distinct (column_cells tdf j)"
    and "1 \<le> k"
    and "frame_values uim \<noteq> []" and "frame_columns uim \<noteq> []"
    and "r = \<lparr> user_item_matrix = uim, tools_df = tdf, n_neighbors = k,
               model = frame_values uim, tool_id_to_details = to_dict_index tdf j,
               all_tool_ids = set (column_cells tdf j) \<rparr>"
  using assms
  by (auto simp: init_def fit_def split: option.splits if_splits)

lemma fit_mixed_labels: "mixed_labels (frame_columns m) \<Longrightarrow> fit m = Inl TypeError"
  by (simp add: fit_def)

lemma mean_frame_labels: "map fst (mean_frame cols rows) = cols"
  by (simp add: mean_frame_def comp_def map_nth)

lemma mean_frame_length: "length (mean_frame cols rows) = length cols"
  by (simp add: mean_frame_def)

lemma mean_frame_nth:
  "j < length cols \<Longrightarrow> mean_frame cols rows ! j = (cols ! j, column_mean rows j)"
  by (simp add: mean_frame_def)

lemma mean_frame_two:
  "mean_frame [c, d] rows = [(c, column_mean rows 0), (d, column_mean rows 1)]"
  by (simp add: mean_frame_def upt_rec)

lemma column_mean_sum:
  "column_mean rows j = (\<Sum>i<length rows. rows ! i ! j) / of_nat (length rows)"
proof -
  have "sum_list (map (\<lambda>row. row ! j) rows) = (\<Sum>i<length rows. rows ! i ! j)"
    by (simp add: sum_list_sum_nth atLeast0LessThan)
  then show ?thesis by (simp add: column_mean_def)
qed

lemma all_zero_nonzero_Nil: "all_zero v \<Longrightarrow> all_nonzero v \<Longrightarrow> v = []"
  by (cases v) (auto simp: all_zero_def all_nonzero_def)

lemma all_less_two: "(\<forall>j<Suc (Suc 0). P j) \<longleftrightarrow> P 0 \<and> P (Suc 0)"
  by (auto simp: less_Suc_eq)

subsection \<open>The cosine distance\<close>

lemma dot_self_nonneg: "0 \<le> dot v v"
  unfolding dot_def by (induction v) simp_all

lemma dot_self_zero: "dot v v = 0 \<Longrightarrow> dot q v = 0"
proof (induction v arbitrary: q)
  case Nil
  then show ?case by (simp add: dot_def)
next
  case (Cons x xs)
  have t: "0 \<le> dot xs xs" by (rule dot_self_nonneg)
  from Cons.prems have s: "x * x + dot xs xs = 0" by (simp add: dot_def)
  have "0 \<le> x * x" by simp
  with s t have "x * x = 0" "dot xs xs = 0" by linarith+
  then have x: "x = 0" and xs: "dot xs xs = 0" by simp_all
  show ?case
  proof (cases q)
    case Nil
    then show ?thesis by (simp add: dot_def)
  next
    case (Cons y ys)
    with x Cons.IH [OF xs, of ys] show ?thesis by (simp add: dot_def)
  qed
qed

lemma dot_commute: "dot u v = dot v u"
proof (induction u arbitrary: v)
  case Nil
  then show ?case by (simp add: dot_def)
next
  case (Cons x xs)
  then show ?case by (cases v) (simp_all add: dot_def mult.commute)
qed

lemma squares_expand:
  "length q = length v \<Longrightarrow>
     sum_list (map2 (\<lambda>x y. (a * y - c * x) * (a * y - c * x)) q v) =
       a * a * dot v v - 2 * a * c * dot q v + c * c * dot q q"
  by (induction q v rule: list_induct2) (simp_all add: dot_def algebra_simps)

lemma cauchy_schwarz:
  assumes "length q = length v"
  shows "dot q v * dot q v \<le> dot q q * dot v v"
proof (cases "dot q q = 0")
  case True
  then have "dot v q = 0" by (rule dot_self_zero)
  with True show ?thesis by (simp add: dot_commute)
next
  case False
  with dot_self_nonneg [of q] have pos: "0 < dot q q" by simp
  have "0 \<le> sum_list (map2 (\<lambda>x y. (dot q q * y - dot q v * x) * (dot q q * y - dot q v * x)) q v)"
    by (rule sum_list_nonneg) auto
  then have "0 \<le> dot q q * dot q q * dot v v - 2 * dot q q * dot q v * dot q v
                 + dot q v * dot q v * dot q q"
    by (simp only: squares_expand [OF assms])
  then have "0 \<le> dot q q * (dot q q * dot v v - dot q v * dot q v)"
    by (simp add: algebra_simps)
  with pos have "0 \<le> dot q q * dot v v - dot q v * dot q v"
    by (simp add: zero_le_mult_iff)
  then show ?thesis by simp
qed

lemma unit_norm_pos: "0 < unit_norm v"
proof -
  have "0 \<le> row_norm v" by (simp add: row_norm_def dot_self_nonneg)
  then show ?thesis by (simp add: unit_norm_def)
qed

lemma unit_norm_square:
  "dot v v \<noteq> 0 \<Longrightarrow> unit_norm v * unit_norm v = of_rat (dot v v)"
proof -
  assume "dot v v \<noteq> 0"
  with dot_self_nonneg [of v] have "0 < dot v v" by simp
  then have p: "(0::real) < of_rat (dot v v)" by simp
  then have "row_norm v \<noteq> 0" by (simp add: row_norm_def)
  with p show ?thesis by (simp add: unit_norm_def row_norm_def)
qed

lemma scaled_dot:
  "sum_list (map2 (*) (map (\<lambda>x. of_rat x / a) q) (map (\<lambda>x. of_rat x / b) v)) =
     (of_rat (dot q v) :: real) / (a * b)"
proof (induction q arbitrary: v)
  case Nil
  then show ?case by (simp add: dot_def)
next
  case (Cons x xs)
  show ?case
  proof (cases v)
    case Nil
    then show ?thesis by (simp add: dot_def)
  next
    case (Cons y ys)
    have "dot (x # xs) (y # ys) = x * y + dot xs ys" by (simp add: dot_def)
    with Cons Cons.IH [of ys] show ?thesis
      by (simp add: of_rat_add of_rat_mult add_divide_distrib)
  qed
qed

lemma cosine_similarity:
  "sum_list (map2 (*) (normalize_row q) (normalize_row v)) =
     of_rat (dot q v) / (unit_norm q * unit_norm v)"
  unfolding normalize_row_def by (rule scaled_dot)

lemma cosine_similarity_bounded:
  assumes "length q = length v"
  shows "\<bar>of_rat (dot q v) / (unit_norm q * unit_norm v)\<bar> \<le> (1::real)"
proof (cases "dot q q = 0 \<or> dot v v = 0")
  case True
  then have "dot q v = 0" using dot_self_zero [of v q] dot_self_zero [of q v] dot_commute [of q v]
    by auto
  then show ?thesis by simp
next
  case False
  let ?d = "of_rat (dot q v) :: real"
  let ?n = "unit_norm q * unit_norm v"
  have n: "0 < ?n" using unit_norm_pos [of q] unit_norm_pos [of v] by simp
  have "?n * ?n = (unit_norm q * unit_norm q) * (unit_norm v * unit_norm v)" by simp
  also have "\<dots> = of_rat (dot q q * dot v v)"
    using False by (simp add: unit_norm_square of_rat_mult)
  finally have nn: "?n * ?n = of_rat (dot q q * dot v v)" .
  have "?d * ?d = of_rat (dot q v * dot q v)" by (simp add: of_rat_mult)
  also have "\<dots> \<le> of_rat (dot q q * dot v v)"
    using cauchy_schwarz [OF assms] by (simp only: of_rat_less_eq)
  finally have "?d * ?d \<le> ?n * ?n" by (simp only: nn)
  then have "?d\<^sup>2 \<le> ?n\<^sup>2" by (simp add: power2_eq_square)
  then have "\<bar>?d\<bar> \<le> \<bar>?n\<bar>" by (simp only: abs_le_square_iff)
  with n have "\<bar>?d\<bar> \<le> ?n" by simp
  with n show ?thesis by simp
qed

text \<open>The clip changes no value: the product of two normalised rows lies between -1 and 1.\<close>

lemma cosine_distance_unclipped:
  assumes "length q = length v"
  shows "cosine_distance q v = 1 - of_rat (dot q v) / (unit_norm q * unit_norm v)"
proof -
  let ?s = "of_rat (dot q v) / (unit_norm q * unit_norm v) :: real"
  from cosine_similarity_bounded [OF assms] have "- 1 \<le> ?s" "?s \<le> 1"
    by (simp_all only: abs_le_iff) linarith+
  then have "min 2 (max 0 (1 - ?s)) = 1 - ?s" by (simp add: min_def max_def)
  then show ?thesis by (simp only: cosine_distance_def cosine_similarity)
qed

lemma signed_square_mono: "x * \<bar>x\<bar> \<le> y * \<bar>y\<bar> \<longleftrightarrow> x \<le> (y::real)"
proof -
  have up: "a * \<bar>a\<bar> \<le> b * \<bar>b\<bar>" if "a \<le> b" for a b :: real
  proof -
    consider "0 \<le> a" | "a < 0" "0 \<le> b" | "b < 0" by linarith
    then show ?thesis
    proof cases
      case 1
      with that have "a * a \<le> b * b" by (intro mult_mono) simp_all
      with 1 that show ?thesis by simp
    next
      case 2
      then have "a * \<bar>a\<bar> \<le> 0" "0 \<le> b * \<bar>b\<bar>"
        by (simp_all add: mult_le_0_iff)
      then show ?thesis by linarith
    next
      case 3
      with that have "(- b) * (- b) \<le> (- a) * (- a)" by (intro mult_mono) simp_all
      with 3 that show ?thesis by simp
    qed
  qed
  have strict: "a = b" if "a \<le> b" "b * \<bar>b\<bar> \<le> a * \<bar>a\<bar>" for a b :: real
  proof -
    from up [OF that(1)] that(2) have e: "a * \<bar>a\<bar> = b * \<bar>b\<bar>" by simp
    then have "\<bar>a * \<bar>a\<bar>\<bar> = \<bar>b * \<bar>b\<bar>\<bar>" by simp
    then have "\<bar>a\<bar> * \<bar>a\<bar> = \<bar>b\<bar> * \<bar>b\<bar>" by (simp add: abs_mult)
    then have m: "\<bar>a\<bar> = \<bar>b\<bar>"
      by (metis abs_ge_zero power2_eq_square power2_eq_iff_nonneg)
    show ?thesis
    proof (cases "\<bar>a\<bar> = 0")
      case True
      with m show ?thesis by simp
    next
      case False
      with e m show ?thesis by simp
    qed
  qed
  show ?thesis
  proof
    assume l: "x * \<bar>x\<bar> \<le> y * \<bar>y\<bar>"
    show "x \<le> y"
    proof (rule ccontr)
      assume "\<not> x \<le> y"
      then have "y \<le> x" by simp
      from strict [OF this l] show False using \<open>\<not> x \<le> y\<close> by simp
    qed
  next
    assume "x \<le> y" then show "x * \<bar>x\<bar> \<le> y * \<bar>y\<bar>" by (rule up)
  qed
qed

lemma similarity_key_real:
  "of_rat (similarity_key q v) =
     (of_rat (dot q v) / unit_norm v) * \<bar>of_rat (dot q v) / unit_norm v :: real\<bar>"
proof (cases "dot v v = 0")
  case True
  then have "dot q v = 0" by (rule dot_self_zero)
  with True show ?thesis by (simp add: similarity_key_def)
next
  case False
  let ?d = "of_rat (dot q v) :: real"
  have u: "0 < unit_norm v" by (rule unit_norm_pos)
  have "of_rat (similarity_key q v) = (of_rat (sgn (dot q v) * dot q v * dot q v / dot v v) :: real)"
    using False by (simp add: similarity_key_def Let_def)
  also have "\<dots> = of_rat (dot q v * \<bar>dot q v\<bar>) / of_rat (dot v v)"
    by (simp add: of_rat_divide abs_sgn mult.commute mult.left_commute)
  also have "\<dots> = ?d * \<bar>?d\<bar> / (unit_norm v * unit_norm v)"
    by (simp add: unit_norm_square [OF False] of_rat_mult)
  also have "\<dots> = (?d / unit_norm v) * \<bar>?d / unit_norm v\<bar>"
    using u by simp
  finally show ?thesis .
qed

text \<open>
  For a query that is not the zero vector (the only queries the recommender makes), a row
  is nearer than another exactly when its key is greater.
\<close>

lemma cosine_distance_order:
  assumes "dot q q \<noteq> 0" and "length q = length v" and "length q = length w"
  shows "cosine_distance q v \<le> cosine_distance q w \<longleftrightarrow>
           similarity_key q w \<le> similarity_key q v"
proof -
  let ?a = "of_rat (dot q v) / unit_norm v :: real"
  let ?b = "of_rat (dot q w) / unit_norm w :: real"
  have u: "0 < unit_norm q" by (rule unit_norm_pos)
  have "cosine_distance q v \<le> cosine_distance q w \<longleftrightarrow>
          of_rat (dot q w) / (unit_norm q * unit_norm w) \<le>
          of_rat (dot q v) / (unit_norm q * unit_norm v)"
    by (simp add: cosine_distance_unclipped [OF assms(2)] cosine_distance_unclipped [OF assms(3)])
  also have "\<dots> \<longleftrightarrow> ?b / unit_norm q \<le> ?a / unit_norm q"
    by (simp add: mult.commute)
  also have "\<dots> \<longleftrightarrow> ?b \<le> ?a" using u by (subst divide_le_cancel) auto
  also have "\<dots> \<longleftrightarrow> ?b * \<bar>?b\<bar> \<le> ?a * \<bar>?a\<bar>" by (simp only: signed_square_mono)
  also have "\<dots> \<longleftrightarrow> (of_rat (similarity_key q w) :: real) \<le> of_rat (similarity_key q v)"
    by (simp only: similarity_key_real)
  also have "\<dots> \<longleftrightarrow> similarity_key q w \<le> similarity_key q v"
    by (simp only: of_rat_less_eq)
  finally show ?thesis .
qed

subsection \<open>The neighbour query\<close>

lemma kneighbors_Inr:
  assumes "kneighbors fitted q m = Inr ps"
  shows "0 < m" and "m \<le> int (length fitted)" and "length ps = nat m"
    and "distinct ps" and "set ps \<subseteq> {..<length fitted}"
proof -
  let ?all = "sort_key (\<lambda>i. - similarity_key q (fitted ! i)) [0..<length fitted]"
  from assms show m: "0 < m" "m \<le> int (length fitted)"
    by (auto simp: kneighbors_def split: if_splits)
  with assms have ps: "ps = take (nat m) ?all" by (simp add: kneighbors_def)
  from m show "length ps = nat m" by (simp add: ps)
  show "distinct ps" unfolding ps by (rule distinct_take) simp
  have "set ps \<subseteq> set ?all" unfolding ps by (rule set_take_subset)
  then show "set ps \<subseteq> {..<length fitted}" by auto
qed

lemma kneighbors_too_many:
  "0 < m \<Longrightarrow> int (length fitted) < m \<Longrightarrow>
     kneighbors fitted q m = Inl (ValueError (TooManyNeighbors m (length fitted)))"
  by (simp add: kneighbors_def)

lemma kneighbors_succeeds:
  "0 < m \<Longrightarrow> m \<le> int (length fitted) \<Longrightarrow> \<exists>ps. kneighbors fitted q m = Inr ps"
  by (simp add: kneighbors_def)

text \<open>
  The positions returned are in the order of rising distance, and no row left out is
  nearer than a row returned.
\<close>

lemma kneighbors_nearest_first:
  assumes "kneighbors fitted q m = Inr ps" and "dot q q \<noteq> 0"
    and "\<forall>row\<in>set fitted. length row = length q"
  shows "sorted (map (\<lambda>i. cosine_distance q (fitted ! i)) ps)"
    and "\<forall>i\<in>set ps. \<forall>j<length fitted. j \<notin> set ps \<longrightarrow>
           cosine_distance q (fitted ! i) \<le> cosine_distance q (fitted ! j)"
proof -
  let ?f = "\<lambda>i. - similarity_key q (fitted ! i)"
  let ?all = "sort_key ?f [0..<length fitted]"
  from assms(1) have ps: "ps = take (nat m) ?all"
    by (auto simp: kneighbors_def split: if_splits)
  have order: "cosine_distance q (fitted ! i) \<le> cosine_distance q (fitted ! j)"
    if "i < length fitted" "j < length fitted" "?f i \<le> ?f j" for i j
  proof -
    from that(1,2) assms(3) have "length q = length (fitted ! i)" "length q = length (fitted ! j)"
      by simp_all
    from cosine_distance_order [OF assms(2) this] that(3) show ?thesis by simp
  qed
  have in_range: "i < length fitted" if "i \<in> set ?all" for i using that by simp
  have "sorted (map ?f ?all)" by simp
  then have "sorted (map ?f (take (nat m) ?all @ drop (nat m) ?all))"
    by (simp only: append_take_drop_id)
  then have s: "sorted (map ?f (take (nat m) ?all) @ map ?f (drop (nat m) ?all))"
    by (simp only: map_append)
  then have "sorted (map ?f ps)" unfolding ps sorted_append by blast
  then have "sorted_wrt (\<lambda>i j. ?f i \<le> ?f j) ps" by (simp only: sorted_map)
  then have "sorted_wrt (\<lambda>i j. cosine_distance q (fitted ! i) \<le> cosine_distance q (fitted ! j)) ps"
  proof (rule sorted_wrt_mono_rel [rotated])
    fix i j assume "i \<in> set ps" "j \<in> set ps" "?f i \<le> ?f j"
    moreover from this(1,2) have "i \<in> set ?all" "j \<in> set ?all"
      unfolding ps by (auto dest: in_set_takeD)
    ultimately show "cosine_distance q (fitted ! i) \<le> cosine_distance q (fitted ! j)"
      using order in_range by blast
  qed
  then show "sorted (map (\<lambda>i. cosine_distance q (fitted ! i)) ps)" by (simp only: sorted_map)
  show "\<forall>i\<in>set ps. \<forall>j<length fitted. j \<notin> set ps \<longrightarrow>
           cosine_distance q (fitted ! i) \<le> cosine_distance q (fitted ! j)"
  proof (intro ballI allI impI)
    fix i j assume i: "i \<in> set ps" and j: "j < length fitted" "j \<notin> set ps"
    from i have ia: "i \<in> set ?all" unfolding ps by (rule in_set_takeD)
    from j(1) have "j \<in> set ?all" by simp
    then have "j \<in> set (take (nat m) ?all) \<union> set (drop (nat m) ?all)"
      by (simp only: set_append [symmetric] append_take_drop_id)
    with j(2) have jd: "j \<in> set (drop (nat m) ?all)" unfolding ps by blast
    from s have "\<forall>x\<in>set (map ?f (take (nat m) ?all)). \<forall>y\<in>set (map ?f (drop (nat m) ?all)). x \<le> y"
      unfolding sorted_append by blast
    with i jd have "?f i \<le> ?f j" unfolding ps by (simp only: set_map) blast
    with ia j(1) show "cosine_distance q (fitted ! i) \<le> cosine_distance q (fitted ! j)"
      using order in_range by blast
  qed
qed

subsection \<open>The resolved records\<close>


lemma recommended_tool_id: "dict_get (recommended_tool t name det) ''tool_id'' = t"
  by (simp add: recommended_tool_def dict_get_def)



lemma resolve_tools_Cons:
  assumes "resolve_tools details (t # ts) = Inr recs"
  obtains (skipped) "map_of details t = None" and "resolve_tools details ts = Inr recs"
  | (kept) det name rest where "map_of details t = Some det"
      and "map_of det ''tool_name'' = Some name"
      and "resolve_tools details ts = Inr rest"
      and "recs = recommended_tool t name det # rest"
  using assms by (auto split: option.splits sum.splits)

lemma resolve_tools_ids:
  "resolve_tools details ts = Inr recs \<Longrightarrow>
     map (\<lambda>d. dict_get d ''tool_id'') recs = filter (\<lambda>t. map_of details t \<noteq> None) ts"
proof (induction ts arbitrary: recs)
  case Nil
  then show ?case by simp
next
  case (Cons t ts)
  from Cons.prems show ?case
  proof (cases rule: resolve_tools_Cons)
    case skipped
    then show ?thesis using Cons.IH by simp
  next
    case (kept det name rest)
    then show ?thesis using Cons.IH by (simp add: recommended_tool_id)
  qed
qed


lemma resolve_tools_length:
  "resolve_tools details ts = Inr recs \<Longrightarrow> length recs \<le> length ts"
proof -
  assume "resolve_tools details ts = Inr recs"
  then have "map (\<lambda>d. dict_get d ''tool_id'') recs = filter (\<lambda>t. map_of details t \<noteq> None) ts"
    by (rule resolve_tools_ids)
  then have "length recs = length (filter (\<lambda>t. map_of details t \<noteq> None) ts)"
    by (metis length_map)
  then show ?thesis by simp
qed

subsection \<open>The example inputs\<close>

lemma example_init:
  "rows \<noteq> [] \<Longrightarrow> 1 \<le> k \<Longrightarrow>
     init (example_ratings rows) example_tools k = Inr (example_recommender rows k)"
  by (auto simp: init_def example_ratings_def example_tools_def example_recommender_def
        column_cells_def fit_def mixed_labels_def to_dict_index_def)

lemma example_recommender_fields:
  "user_item_matrix (example_recommender rows k) = example_ratings rows"
  "tools_df (example_recommender rows k) = example_tools"
  "n_neighbors (example_recommender rows k) = k"
  "model (example_recommender rows k) = rows"
  "tool_id_to_details (example_recommender rows k) =
     [(IntCell 10, [(''tool_name'', StrCell ''Alpha''), (''category'', StrCell ''stats'')]),
      (IntCell 20, [(''tool_name'', StrCell ''Beta''), (''category'', StrCell ''plots'')])]"
  by (simp_all add: example_recommender_def)

lemma example_ratings_fields:
  "frame_columns (example_ratings rows) = [IntCell 10, IntCell 20]"
  "frame_values (example_ratings rows) = rows"
  by (simp_all add: example_ratings_def)

lemma example_ratings_index:
  "frame_index (example_ratings [a, b]) = [1, 2]"
  "frame_index (example_ratings [a, b, c]) = [1, 2, 3]"
  by (simp_all add: example_ratings_def upt_rec)

lemma example_wf:
  "length a = 2 \<Longrightarrow> length b = 2 \<Longrightarrow> wf_frame (example_ratings [a, b])"
  "length a = 2 \<Longrightarrow> length b = 2 \<Longrightarrow> length c = 2 \<Longrightarrow> wf_frame (example_ratings [a, b, c])"
  by (simp_all add: wf_frame_def example_ratings_fields example_ratings_index)

lemma example_loc:
  "loc (example_ratings [a, b]) 1 = Some a"
  "loc (example_ratings [a, b]) 2 = Some b"
  "loc (example_ratings [a, b, c]) 1 = Some a"
  "loc (example_ratings [a, b, c]) 2 = Some b"
  "loc (example_ratings [a, b, c]) 3 = Some c"
  by (simp_all add: loc_def example_ratings_fields example_ratings_index)

lemma upt_3: "[0..<3] = [0, 1, 2]" by (simp add: upt_rec)

section \<open>Failures of construction and of the parameters\<close>

text \<open>
  Claim C8. When a column label of the rating matrix is not among the \<open>tool_id\<close> cells
  of the catalogue, or two rows of the catalogue have the same \<open>tool_id\<close>, construction
  fails with an error of the data-integrity class, whatever \<open>k\<close> is, and yields no
  recommender.
\<close>

theorem init_data_integrity_error:
  assumes "position ''tool_id'' (tools_columns tdf) = Some j"
    and "\<not> set (frame_columns uim) \<subseteq> set (column_cells tdf j) \<or>
         \<not> distinct (column_cells tdf j)"
  shows "(\<exists>e. init uim tdf k = Inl e \<and> classify e = DataIntegrityError) \<and>
         (\<forall>r. init uim tdf k \<noteq> Inr r)"
  using assms by (auto simp: init_def)

theorem init_data_integrity_error_witness:
  "position ''tool_id'' (tools_columns example_tools) = Some 0 \<and>
   \<not> distinct (column_cells
        (example_tools\<lparr>tools_rows := [[IntCell 10, StrCell ''Alpha''], [IntCell 10, StrCell ''Beta'']]\<rparr>) 0) \<and>
   \<not> set (frame_columns (example_ratings [[1, 2]])) \<subseteq>
        set (column_cells (example_tools\<lparr>tools_rows := [[IntCell 10, StrCell ''Alpha'']]\<rparr>) 0) \<and>
   (\<exists>e. init (example_ratings [[1, 2]])
          (example_tools\<lparr>tools_rows := [[IntCell 10, StrCell ''Alpha''], [IntCell 10, StrCell ''Beta'']]\<rparr>) 5 = Inl e \<and>
        classify e = DataIntegrityError) \<and>
   (\<exists>e. init (example_ratings [[1, 2]])
          (example_tools\<lparr>tools_rows := [[IntCell 10, StrCell ''Alpha'']]\<rparr>) 5 = Inl e \<and>
        classify e = DataIntegrityError)"
proof -
  let ?dup = "example_tools\<lparr>tools_rows := [[IntCell 10, StrCell ''Alpha''], [IntCell 10, StrCell ''Beta'']]\<rparr>"
  let ?few = "example_tools\<lparr>tools_rows := [[IntCell 10, StrCell ''Alpha'']]\<rparr>"
  have p: "position ''tool_id'' (tools_columns example_tools) = Some 0"
    by (simp add: example_tools_def)
  then have pd: "position ''tool_id'' (tools_columns ?dup) = Some 0"
    and pf: "position ''tool_id'' (tools_columns ?few) = Some 0" by simp_all
  have d: "\<not> distinct (column_cells ?dup 0)" by (simp add: column_cells_def)
  have f: "\<not> set (frame_columns (example_ratings [[1, 2]])) \<subseteq> set (column_cells ?few 0)"
    by (simp add: column_cells_def example_ratings_def)
  from init_data_integrity_error [OF pd disjI2 [OF d], of "example_ratings [[1, 2]]" 5]
       init_data_integrity_error [OF pf disjI1 [OF f], of 5]
       p d f
  show ?thesis by (intro conjI) blast+
qed

text \<open>
  Claim C9, as stated, fails: the check of \<open>k\<close> comes third. With \<open>k = 0\<close> and a matrix
  column (here 7) that the catalogue does not have, construction fails with the
  missing-identifier error, which is of the data-integrity class.
\<close>

theorem init_k_checked_last_counterexample:
  "init (example_ratings [[1, 2]]\<lparr>frame_columns := [IntCell 10, IntCell 7]\<rparr>) example_tools 0 =
     Inl (ValueError MissingToolIds) \<and>
   classify (ValueError MissingToolIds) = DataIntegrityError \<and>
   DataIntegrityError \<noteq> ConfigurationError"
  by (simp add: init_def example_ratings_def example_tools_def column_cells_def)

text \<open>
  Claim C9, amended. When the catalogue has every column label of the matrix and no
  duplicate \<open>tool_id\<close>, construction with \<open>k < 1\<close> fails with the error for
  \<open>n_neighbors\<close>; and \<open>get_recommendations\<close> with \<open>n < 1\<close> fails with the error for
  \<open>n_recommendations\<close>, for every recommender and user. Both errors are of the
  configuration class.
\<close>

theorem parameter_too_small:
  "(position ''tool_id'' (tools_columns tdf) = Some j \<and>
    set (frame_columns uim) \<subseteq> set (column_cells tdf j) \<and>
    distinct (column_cells tdf j) \<and> k < 1 \<longrightarrow>
      init uim tdf k = Inl (ValueError NNeighborsTooSmall)) \<and>
   (n < 1 \<longrightarrow> get_recommendations r user_id n = Inl (ValueError NRecommendationsTooSmall)) \<and>
   classify (ValueError NNeighborsTooSmall) = ConfigurationError \<and>
   classify (ValueError NRecommendationsTooSmall) = ConfigurationError"
  by (auto simp: init_def get_recommendations_def)

theorem parameter_too_small_witness:
  "position ''tool_id'' (tools_columns example_tools) = Some 0 \<and>
   set (frame_columns (example_ratings [[5, 0], [3, 4]])) \<subseteq> set (column_cells example_tools 0) \<and>
   distinct (column_cells example_tools 0) \<and> (0::int) < 1 \<and>
   init (example_ratings [[5, 0], [3, 4]]) example_tools 0 = Inl (ValueError NNeighborsTooSmall) \<and>
   get_recommendations (example_recommender [[5, 0], [3, 4]] 1) 1 0 =
     Inl (ValueError NRecommendationsTooSmall)"
proof -
  have h: "position ''tool_id'' (tools_columns example_tools) = Some 0"
    "set (frame_columns (example_ratings [[5, 0], [3, 4]])) \<subseteq> set (column_cells example_tools 0)"
    "distinct (column_cells example_tools 0)" "(0::int) < 1"
    by (simp_all add: example_tools_def example_ratings_def column_cells_def)
  with parameter_too_small [of example_tools 0 "example_ratings [[5, 0], [3, 4]]" 0 0
         "example_recommender [[5, 0], [3, 4]] 1" 1]
  show ?thesis by simp
qed

section \<open>Scores\<close>

subsection \<open>A user without ratings\<close>

text \<open>
  Claim C6. For a user of the matrix whose row is all zeros, \<open>get_recommendation_scores\<close>
  returns one score for each column, labelled by the column, and the score of a column is
  the sum of that column over all users divided by the number of users. No neighbour is
  looked up: the result is a function of the matrix alone.
\<close>

theorem cold_start_scores_global_mean:
  assumes "init uim tdf k = Inr r" and "wf_frame uim"
    and "loc uim user_id = Some row" and "all_zero row"
  shows "\<exists>s. get_recommendation_scores r user_id = Inr s \<and>
           map fst s = frame_columns uim \<and>
           (\<forall>j<length (frame_columns uim).
              snd (s ! j) =
                (\<Sum>i<length (frame_values uim). frame_values uim ! i ! j) /
                  of_nat (length (frame_values uim)))"
proof -
  from assms(1) have m: "user_item_matrix r = uim" by (rule init_Inr) simp
  let ?s = "mean_frame (frame_columns uim) (frame_values uim)"
  have "get_recommendation_scores r user_id = Inr ?s"
    using assms(3,4) by (simp add: get_recommendation_scores_def m)
  moreover have "map fst ?s = frame_columns uim" by (rule mean_frame_labels)
  moreover have "\<forall>j<length (frame_columns uim). snd (?s ! j) =
      (\<Sum>i<length (frame_values uim). frame_values uim ! i ! j) / of_nat (length (frame_values uim))"
    by (simp add: mean_frame_nth column_mean_sum)
  ultimately show ?thesis by blast
qed

theorem cold_start_scores_global_mean_witness:
  "init (example_ratings [[0, 0], [1, 5], [2, 2]]) example_tools 1 =
     Inr (example_recommender [[0, 0], [1, 5], [2, 2]] 1) \<and>
   wf_frame (example_ratings [[0, 0], [1, 5], [2, 2]]) \<and>
   loc (example_ratings [[0, 0], [1, 5], [2, 2]]) 1 = Some [0, 0] \<and>
   all_zero [0, 0] \<and>
   (\<exists>s. get_recommendation_scores (example_recommender [[0, 0], [1, 5], [2, 2]] 1) 1 = Inr s \<and>
        map fst s = [IntCell 10, IntCell 20] \<and>
        snd (s ! 0) = 1 \<and> snd (s ! 1) = 7 / 3)"
proof -
  let ?rows = "[[0, 0], [1, 5], [2, 2]] :: rat list list"
  have i: "init (example_ratings ?rows) example_tools 1 = Inr (example_recommender ?rows 1)"
    by (simp add: example_init)
  have w: "wf_frame (example_ratings ?rows)"
    by (simp add: wf_frame_def example_ratings_def)
  have l: "loc (example_ratings ?rows) 1 = Some [0, 0]"
    by (simp add: loc_def example_ratings_def)
  have z: "all_zero [0, 0]" by (simp add: all_zero_def)
  from cold_start_scores_global_mean [OF i w l z]
  obtain s where s: "get_recommendation_scores (example_recommender ?rows 1) 1 = Inr s"
    and f: "map fst s = frame_columns (example_ratings ?rows)"
    and v: "\<forall>j<length (frame_columns (example_ratings ?rows)).
              snd (s ! j) =
                (\<Sum>i<length (frame_values (example_ratings ?rows)).
                    frame_values (example_ratings ?rows) ! i ! j) /
                  of_nat (length (frame_values (example_ratings ?rows)))"
    by blast
  from f have f': "map fst s = [IntCell 10, IntCell 20]" by (simp add: example_ratings_def)
  from v have "snd (s ! 0) = 1" "snd (s ! 1) = 7 / 3"
    by (simp_all add: example_ratings_def lessThan_Suc numeral_3_eq_3 all_less_two)
  with s f' i w l z show ?thesis by (intro conjI exI [of _ s])
qed

subsection \<open>The neighbour count\<close>

text \<open>
  The two paths ask for the same number of neighbours, and select the same rows, as long
  as \<open>k\<close> does not exceed the number of users.
\<close>

lemma similar_users_agree:
  assumes "n_neighbors r \<le> int (length (frame_values (user_item_matrix r)))"
  shows "recs_neighbor_request r = scores_neighbor_request r"
    and "recs_similar_users r v = scores_similar_users r v"
  using assms
  by (simp_all add: recs_neighbor_request_def scores_neighbor_request_def
        recs_similar_users_def scores_similar_users_def)

text \<open>
  With as many users as \<open>k\<close> or fewer, both queries ask for more rows than were fitted and
  both fail: the scoring path asks for one more than the number of users, the
  recommendation path for \<open>k + 1\<close>.
\<close>

lemma similar_users_fail_together:
  assumes "init uim tdf k = Inr r" and "int (length (frame_values uim)) \<le> k"
  shows "scores_similar_users r v =
           Inl (ValueError (TooManyNeighbors (int (length (frame_values uim)) + 1)
                  (length (frame_values uim))))"
    and "recs_similar_users r v =
           Inl (ValueError (TooManyNeighbors (k + 1) (length (frame_values uim))))"
proof -
  from assms(1) have f: "user_item_matrix r = uim" "model r = frame_values uim"
    "n_neighbors r = k" and k: "1 \<le> k"
    by (rule init_Inr, simp)+
  from assms(2) have "scores_neighbor_request r = int (length (frame_values uim)) + 1"
    by (simp add: scores_neighbor_request_def f)
  then show "scores_similar_users r v =
           Inl (ValueError (TooManyNeighbors (int (length (frame_values uim)) + 1)
                  (length (frame_values uim))))"
    by (simp add: scores_similar_users_def f kneighbors_too_many)
  from assms(2) k show "recs_similar_users r v =
           Inl (ValueError (TooManyNeighbors (k + 1) (length (frame_values uim))))"
    by (simp add: recs_similar_users_def recs_neighbor_request_def f kneighbors_too_many)
qed

lemma scores_fail_when_few_users:
  assumes "init uim tdf k = Inr r" and "loc uim user_id = Some row" and "\<not> all_zero row"
    and "int (length (frame_values uim)) \<le> k"
  shows "get_recommendation_scores r user_id =
           Inl (ValueError (TooManyNeighbors (int (length (frame_values uim)) + 1)
                  (length (frame_values uim))))"
proof -
  from assms(1) have m: "user_item_matrix r = uim" by (rule init_Inr) simp
  from assms(2,3) show ?thesis
    by (simp add: get_recommendation_scores_def m
          similar_users_fail_together(1) [OF assms(1,4)])
qed

lemma recommendations_fail_when_few_users:
  assumes "init uim tdf k = Inr r" and "loc uim user_id = Some row"
    and "\<not> all_zero row" and "\<not> all_nonzero row" and "1 \<le> n"
    and "int (length (frame_values uim)) \<le> k"
  shows "get_recommendations r user_id n =
           Inl (ValueError (TooManyNeighbors (k + 1) (length (frame_values uim))))"
proof -
  from assms(1) have m: "user_item_matrix r = uim" by (rule init_Inr) simp
  from assms(2,3,4,5) show ?thesis
    by (simp add: get_recommendations_def m
          similar_users_fail_together(2) [OF assms(1,6)])
qed

text \<open>
  Claim C4. The neighbour count of \<open>get_recommendation_scores\<close> is \<open>min k N\<close> for \<open>N\<close>
  users, but the query asks for one more, and \<open>N + 1\<close> rows are more than the index holds.
  With two users and \<open>k = 3\<close> the count is clamped to 2, the query asks for 3 and fails,
  and so does the call for the user with row \<open>[3, 4]\<close>.
\<close>

theorem clamped_query_fails:
  "init (example_ratings [[5, 0], [3, 4]]) example_tools 3 =
     Inr (example_recommender [[5, 0], [3, 4]] 3) \<and>
   loc (example_ratings [[5, 0], [3, 4]]) 2 = Some [3, 4] \<and> \<not> all_zero [3, 4] \<and>
   scores_neighbor_request (example_recommender [[5, 0], [3, 4]] 3) = min 3 2 + 1 \<and>
   kneighbors (model (example_recommender [[5, 0], [3, 4]] 3)) [3, 4] (min 3 2 + 1) =
     Inl (ValueError (TooManyNeighbors 3 2)) \<and>
   get_recommendation_scores (example_recommender [[5, 0], [3, 4]] 3) 2 =
     Inl (ValueError (TooManyNeighbors 3 2))"
proof -
  let ?rows = "[[5, 0], [3, 4]] :: rat list list"
  let ?r = "example_recommender ?rows 3"
  have i: "init (example_ratings ?rows) example_tools 3 = Inr ?r"
    by (simp add: example_init)
  have l: "loc (example_ratings ?rows) 2 = Some [3, 4]" by (simp add: example_loc)
  have z: "\<not> all_zero [3, 4]" by (simp add: all_zero_def)
  have q: "scores_neighbor_request ?r = min 3 2 + 1"
    by (simp add: scores_neighbor_request_def example_recommender_fields example_ratings_fields)
  have k: "kneighbors (model ?r) [3, 4] (min 3 2 + 1) = Inl (ValueError (TooManyNeighbors 3 2))"
    by (simp add: example_recommender_fields kneighbors_def)
  have s: "scores_similar_users ?r [3, 4] = Inl (ValueError (TooManyNeighbors 3 2))"
    using k by (simp add: scores_similar_users_def q)
  have g: "get_recommendation_scores ?r 2 = Inl (ValueError (TooManyNeighbors 3 2))"
    by (simp add: get_recommendation_scores_def example_recommender_fields l z s)
  from i l z q k g show ?thesis by (intro conjI)
qed

text \<open>
  Claim C3. With two users and \<open>k = 5\<close>, for the user with row \<open>[5, 0]\<close> (one tool rated,
  one not), \<open>get_recommendation_scores\<close> asks for \<open>min 5 2 + 1 = 3\<close> neighbours and
  \<open>get_recommendations\<close> asks for \<open>5 + 1 = 6\<close>: the clamped count of line 157 is not the
  one passed in line 161.
\<close>

theorem neighbor_requests_differ:
  "init (example_ratings [[5, 0], [3, 4]]) example_tools 5 =
     Inr (example_recommender [[5, 0], [3, 4]] 5) \<and>
   loc (example_ratings [[5, 0], [3, 4]]) 1 = Some [5, 0] \<and>
   \<not> all_zero [5, 0] \<and> \<not> all_nonzero [5, 0] \<and>
   scores_neighbor_request (example_recommender [[5, 0], [3, 4]] 5) = 3 \<and>
   recs_neighbor_request (example_recommender [[5, 0], [3, 4]] 5) = 6 \<and>
   get_recommendation_scores (example_recommender [[5, 0], [3, 4]] 5) 1 =
     Inl (ValueError (TooManyNeighbors 3 2)) \<and>
   get_recommendations (example_recommender [[5, 0], [3, 4]] 5) 1 5 =
     Inl (ValueError (TooManyNeighbors 6 2))"
proof -
  let ?rows = "[[5, 0], [3, 4]] :: rat list list"
  let ?r = "example_recommender ?rows 5"
  have i: "init (example_ratings ?rows) example_tools 5 = Inr ?r"
    by (simp add: example_init)
  have l: "loc (example_ratings ?rows) 1 = Some [5, 0]" by (simp add: example_loc)
  have z: "\<not> all_zero [5, 0]" "\<not> all_nonzero [5, 0]"
    by (simp_all add: all_zero_def all_nonzero_def)
  have q: "scores_neighbor_request ?r = 3" "recs_neighbor_request ?r = 6"
    by (simp_all add: scores_neighbor_request_def recs_neighbor_request_def
          example_recommender_fields example_ratings_fields)
  have s: "scores_similar_users ?r [5, 0] = Inl (ValueError (TooManyNeighbors 3 2))"
    by (simp add: scores_similar_users_def q example_recommender_fields kneighbors_def)
  have t: "recs_similar_users ?r [5, 0] = Inl (ValueError (TooManyNeighbors 6 2))"
    by (simp add: recs_similar_users_def q example_recommender_fields kneighbors_def)
  have g: "get_recommendation_scores ?r 1 = Inl (ValueError (TooManyNeighbors 3 2))"
    by (simp add: get_recommendation_scores_def example_recommender_fields l z s)
  have h: "get_recommendations ?r 1 5 = Inl (ValueError (TooManyNeighbors 6 2))"
    by (simp add: get_recommendations_def example_recommender_fields l z t)
  from i l z q g h show ?thesis by (intro conjI)
qed

subsection \<open>A user with ratings\<close>

text \<open>
  With more users than \<open>k\<close>, the scores of a user with some rating are the column means of
  \<open>k\<close> rows at \<open>k\<close> different positions of the matrix: the matches after the first.
\<close>

lemma scores_mean_of_k_rows:
  assumes "init uim tdf k = Inr r" and "loc uim user_id = Some row" and "\<not> all_zero row"
    and "k < int (length (frame_values uim))"
  shows "\<exists>ps. get_recommendation_scores r user_id =
                Inr (mean_frame (frame_columns uim) (map (\<lambda>i. frame_values uim ! i) ps)) \<and>
              int (length ps) = k \<and> distinct ps \<and> set ps \<subseteq> {..<length (frame_values uim)}"
proof -
  from assms(1) have f: "user_item_matrix r = uim" "model r = frame_values uim"
    "n_neighbors r = k" and k: "1 \<le> k"
    by (rule init_Inr, simp)+
  from assms(4) have q: "scores_neighbor_request r = k + 1"
    by (simp add: scores_neighbor_request_def f)
  from k assms(4) obtain qs where qs: "kneighbors (frame_values uim) row (k + 1) = Inr qs"
    using kneighbors_succeeds [of "k + 1" "frame_values uim" row] by auto
  from kneighbors_Inr [OF qs] k have len: "length qs = nat (k + 1)" and d: "distinct qs"
    and sub: "set qs \<subseteq> {..<length (frame_values uim)}" by simp_all
  from len k have ne: "qs \<noteq> []" by auto
  have s: "scores_similar_users r row = Inr (tl qs)"
    by (simp add: scores_similar_users_def q f qs)
  have "get_recommendation_scores r user_id =
      Inr (mean_frame (frame_columns uim) (map (\<lambda>i. frame_values uim ! i) (tl qs)))"
    using assms(2,3) by (simp add: get_recommendation_scores_def f s iloc_def)
  moreover from len k have "int (length (tl qs)) = k" by simp
  moreover from d have "distinct (tl qs)" by (rule distinct_tl)
  moreover from sub ne have "set (tl qs) \<subseteq> {..<length (frame_values uim)}"
    by (meson list.set_sel(2) subset_iff)
  ultimately show ?thesis by blast
qed

text \<open>
  The rows \<open>[2, 0]\<close> and \<open>[5, 0]\<close> point the same way. For the query of either of their
  users, the third row is strictly farther than both, so whatever order the index gives to
  rows at equal distance, the two nearest positions are 0 and 1, and the position left
  after the first is dropped is 0 or 1: the own row of one of the two users.
\<close>

lemma twins_keys:
  "similarity_key [2, 0] [2, 0] = 4" "similarity_key [2, 0] [5, 0] = 4"
  "similarity_key [2, 0] [0, 3] = 0"
  "similarity_key [5, 0] [2, 0] = 25" "similarity_key [5, 0] [5, 0] = 25"
  "similarity_key [5, 0] [0, 3] = 0"
  by (simp_all add: similarity_key_def dot_def)

lemma twins_far_row:
  assumes "q = [2, 0] \<or> q = [5, 0]" and "v = [2, 0] \<or> v = [5, 0]"
  shows "\<not> cosine_distance q [0, 3] \<le> cosine_distance q v"
proof -
  from assms(1) have "dot q q \<noteq> 0" by (auto simp: dot_def)
  moreover from assms have "length q = length [0, 3::rat]" "length q = length v" by auto
  ultimately have "cosine_distance q [0, 3] \<le> cosine_distance q v \<longleftrightarrow>
      similarity_key q v \<le> similarity_key q [0, 3]"
    by (rule cosine_distance_order)
  with assms show ?thesis by (auto simp: twins_keys)
qed

lemma twins_any_tie_order:
  assumes "q = [2, 0] \<or> q = [5, 0]"
    and "length ps = 2" and "distinct ps" and "set ps \<subseteq> {..<3}"
    and "\<forall>i\<in>set ps. \<forall>j<3. j \<notin> set ps \<longrightarrow>
           cosine_distance q ([[2, 0], [5, 0], [0, 3]] ! i) \<le>
           cosine_distance q ([[2, 0], [5, 0], [0, 3]] ! j)"
  shows "tl ps = [0] \<or> tl ps = [1]"
proof -
  from assms(2) obtain a b where ps: "ps = [a, b]"
    by (auto simp: length_Suc_conv numeral_2_eq_2)
  from assms(3,4) have ab: "a \<noteq> b" "a < 3" "b < 3" by (auto simp: ps)
  have "b \<noteq> 2"
  proof
    assume b: "b = 2"
    with ab have "a = 0 \<or> a = 1" by auto
    define j :: nat where "j = (if a = 0 then 1 else 0)"
    with \<open>a = 0 \<or> a = 1\<close> have j: "j < 3" "j \<notin> set ps" "j = 0 \<or> j = 1"
      by (auto simp: ps b)
    with assms(5) b have "cosine_distance q ([[2, 0], [5, 0], [0, 3]] ! 2) \<le>
           cosine_distance q ([[2, 0], [5, 0], [0, 3]] ! j)" by (auto simp: ps)
    moreover from j(3) have "[[2, 0], [5, 0], [0, 3::rat]] ! j = [2, 0] \<or>
        [[2, 0], [5, 0], [0, 3::rat]] ! j = [5, 0]" by auto
    ultimately show False using twins_far_row [OF assms(1)] by auto
  qed
  with ab show ?thesis by (auto simp: ps)
qed

lemma twins_neighbors: "kneighbors [[2, 0], [5, 0], [0, 3]] [5, 0] 2 = Inr [0, 1]"
  by (simp add: kneighbors_def similarity_key_def dot_def upt_3)

text \<open>
  Claim C1. The first match need not be the user's own row: a row that points the same
  way is at distance zero too. With rows \<open>[2, 0]\<close>, \<open>[5, 0]\<close>, \<open>[0, 3]\<close> and \<open>k = 1\<close>, the
  query for user 2 (position 1) returns positions \<open>[0, 1]\<close>; position 0 is dropped and
  the scores are the user's own row \<open>[5, 0]\<close>, which is the mean of neither other row.
\<close>

theorem scores_keep_own_row:
  "init (example_ratings [[2, 0], [5, 0], [0, 3]]) example_tools 1 =
     Inr (example_recommender [[2, 0], [5, 0], [0, 3]] 1) \<and>
   position 2 (frame_index (example_ratings [[2, 0], [5, 0], [0, 3]])) = Some 1 \<and>
   loc (example_ratings [[2, 0], [5, 0], [0, 3]]) 2 = Some [5, 0] \<and>
   scores_similar_users (example_recommender [[2, 0], [5, 0], [0, 3]] 1) [5, 0] = Inr [1] \<and>
   get_recommendation_scores (example_recommender [[2, 0], [5, 0], [0, 3]] 1) 2 =
     Inr [(IntCell 10, 5), (IntCell 20, 0)] \<and>
   mean_frame [IntCell 10, IntCell 20] [[2, 0]] = [(IntCell 10, 2), (IntCell 20, 0)] \<and>
   mean_frame [IntCell 10, IntCell 20] [[0, 3]] = [(IntCell 10, 0), (IntCell 20, 3)]"
proof -
  let ?rows = "[[2, 0], [5, 0], [0, 3]] :: rat list list"
  let ?r = "example_recommender ?rows 1"
  have i: "init (example_ratings ?rows) example_tools 1 = Inr ?r"
    by (simp add: example_init)
  have p: "position 2 (frame_index (example_ratings ?rows)) = Some 1"
    by (simp add: example_ratings_index)
  have l: "loc (example_ratings ?rows) 2 = Some [5, 0]" by (simp add: example_loc)
  have s: "scores_similar_users ?r [5, 0] = Inr [1]"
    by (simp add: scores_similar_users_def scores_neighbor_request_def
          example_recommender_fields example_ratings_fields twins_neighbors)
  have g: "get_recommendation_scores ?r 2 = Inr [(IntCell 10, 5), (IntCell 20, 0)]"
    by (simp add: get_recommendation_scores_def example_recommender_fields l s all_zero_def
          example_ratings_fields iloc_def mean_frame_two column_mean_def)
  have m: "mean_frame [IntCell 10, IntCell 20] [[2, 0]] = [(IntCell 10, 2), (IntCell 20, 0)]"
    "mean_frame [IntCell 10, IntCell 20] [[0, 3]] = [(IntCell 10, 0), (IntCell 20, 3)]"
    by (simp_all add: mean_frame_two column_mean_def)
  from i p l s g m show ?thesis by (intro conjI)
qed

section \<open>Recommendations\<close>

subsection \<open>A user without ratings\<close>

lemma cold_start_value:
  assumes "position ''tool_id'' (tools_columns (tools_df r)) = Some j"
  shows "cold_start_recommendations r n =
           Inr (to_dict_records (tools_columns (tools_df r))
                  (filter (\<lambda>item. item ! j \<in> fst ` set (head n (sort_values_desc
                       (mean_frame (frame_columns (user_item_matrix r))
                          (frame_values (user_item_matrix r))))))
                     (tools_rows (tools_df r))))"
  using assms by (simp add: cold_start_recommendations_def Let_def)

lemma cold_means: "mean_frame [IntCell 10, IntCell 20] [[0, 0], [1, 5]] =
    [(IntCell 10, 1 / 2), (IntCell 20, 5 / 2)]"
  by (simp add: mean_frame_two column_mean_def)

lemma cold_top: "head 2 (sort_values_desc (mean_frame [IntCell 10, IntCell 20] [[0, 0], [1, 5]])) =
    [(IntCell 20, 5 / 2), (IntCell 10, 1 / 2)]"
  by (simp add: cold_means sort_values_desc_def head_def)

text \<open>
  Which tools the branch selects: those whose \<open>tool_id\<close> is among the first \<open>n\<close> labels
  of the column means over all users sorted descending. The selection is the same for
  every \<open>k\<close>.
\<close>

lemma cold_start_selection:
  assumes "init uim tdf k = Inr r" and "init uim tdf k' = Inr r'" and "wf_frame uim"
    and "loc uim user_id = Some row" and "all_zero row" and "1 \<le> n"
  shows "\<exists>j. position ''tool_id'' (tools_columns tdf) = Some j \<and>
           get_recommendations r user_id n =
             Inr (to_dict_records (tools_columns tdf)
                    (filter (\<lambda>item. item ! j \<in> fst ` set (head n (sort_values_desc
                         (mean_frame (frame_columns uim) (frame_values uim)))))
                       (tools_rows tdf))) \<and>
           get_recommendations r' user_id n = get_recommendations r user_id n"
proof -
  from assms(1) obtain j where j: "position ''tool_id'' (tools_columns tdf) = Some j"
    and r: "user_item_matrix r = uim" "tools_df r = tdf"
    by (rule init_Inr) simp
  from assms(2) have r': "user_item_matrix r' = uim" "tools_df r' = tdf"
    by (rule init_Inr, simp)+
  have a: "get_recommendations r user_id n = cold_start_recommendations r n"
    using assms(4,5,6) by (simp add: get_recommendations_def r)
  have b: "get_recommendations r' user_id n = cold_start_recommendations r' n"
    using assms(4,5,6) by (simp add: get_recommendations_def r')
  from j have c: "cold_start_recommendations r n =
             Inr (to_dict_records (tools_columns tdf)
                    (filter (\<lambda>item. item ! j \<in> fst ` set (head n (sort_values_desc
                         (mean_frame (frame_columns uim) (frame_values uim)))))
                       (tools_rows tdf)))"
    using cold_start_value [of r j n] by (simp add: r)
  from j have d: "cold_start_recommendations r' n = cold_start_recommendations r n"
    using cold_start_value [of r j n] cold_start_value [of r' j n] by (simp add: r r')
  from j a b c d show ?thesis by simp
qed

lemma cold_start_selection_example:
  "init (example_ratings [[0, 0], [1, 5]]) example_tools 1 =
     Inr (example_recommender [[0, 0], [1, 5]] 1) \<and>
   init (example_ratings [[0, 0], [1, 5]]) example_tools 4 =
     Inr (example_recommender [[0, 0], [1, 5]] 4) \<and>
   wf_frame (example_ratings [[0, 0], [1, 5]]) \<and>
   loc (example_ratings [[0, 0], [1, 5]]) 1 = Some [0, 0] \<and> all_zero [0, 0] \<and>
   (1::int) \<le> 1 \<and>
   get_recommendations (example_recommender [[0, 0], [1, 5]] 1) 1 1 =
     Inr [[(''tool_id'', IntCell 20), (''tool_name'', StrCell ''Beta''),
           (''category'', StrCell ''plots'')]] \<and>
   get_recommendations (example_recommender [[0, 0], [1, 5]] 4) 1 1 =
     get_recommendations (example_recommender [[0, 0], [1, 5]] 1) 1 1"
proof -
  let ?rows = "[[0, 0], [1, 5]] :: rat list list"
  have i: "init (example_ratings ?rows) example_tools 1 = Inr (example_recommender ?rows 1)"
    and i': "init (example_ratings ?rows) example_tools 4 = Inr (example_recommender ?rows 4)"
    by (simp_all add: example_init)
  have w: "wf_frame (example_ratings ?rows)" by (simp add: example_wf)
  have l: "loc (example_ratings ?rows) 1 = Some [0, 0]" by (simp add: example_loc)
  have z: "all_zero [0, 0]" by (simp add: all_zero_def)
  have n: "(1::int) \<le> 1" by simp
  have t: "head 1 (sort_values_desc (mean_frame [IntCell 10, IntCell 20] ?rows)) =
      [(IntCell 20, 5 / 2)]"
    by (simp add: cold_means sort_values_desc_def head_def)
  from cold_start_selection [OF i i' w l z n]
  have "get_recommendations (example_recommender ?rows 1) 1 1 =
     Inr [[(''tool_id'', IntCell 20), (''tool_name'', StrCell ''Beta''),
           (''category'', StrCell ''plots'')]]"
    and "get_recommendations (example_recommender ?rows 4) 1 1 =
     get_recommendations (example_recommender ?rows 1) 1 1"
    by (auto simp: example_ratings_fields t example_tools_def to_dict_records_def)
  with i i' w l z n show ?thesis by (intro conjI)
qed

text \<open>
  Claim C2. The branch ranks the tools, descending by mean rating, and takes the first
  \<open>n\<close>, but the records it returns are not in that rank order: the catalogue is filtered
  by membership, which keeps the catalogue's own order. With the rows \<open>[0, 0]\<close> and
  \<open>[1, 5]\<close> the column means are \<open>1/2\<close> for tool 10 and \<open>5/2\<close> for tool 20, so the rank is
  20, 10; the call for user 1 with \<open>n = 2\<close> returns the record of tool 10 before that of
  tool 20. The branch for a user with some ratings keeps the rank (lemma
  \<open>resolve_tools_ids\<close>).
\<close>

theorem cold_start_records_lose_rank:
  "init (example_ratings [[0, 0], [1, 5]]) example_tools 1 =
     Inr (example_recommender [[0, 0], [1, 5]] 1) \<and>
   loc (example_ratings [[0, 0], [1, 5]]) 1 = Some [0, 0] \<and> all_zero [0, 0] \<and>
   map fst (head 2 (sort_values_desc
      (mean_frame (frame_columns (example_ratings [[0, 0], [1, 5]]))
         (frame_values (example_ratings [[0, 0], [1, 5]]))))) = [IntCell 20, IntCell 10] \<and>
   get_recommendations (example_recommender [[0, 0], [1, 5]] 1) 1 2 =
     Inr [[(''tool_id'', IntCell 10), (''tool_name'', StrCell ''Alpha''),
           (''category'', StrCell ''stats'')],
          [(''tool_id'', IntCell 20), (''tool_name'', StrCell ''Beta''),
           (''category'', StrCell ''plots'')]]"
proof -
  let ?rows = "[[0, 0], [1, 5]] :: rat list list"
  let ?r = "example_recommender ?rows 1"
  have i: "init (example_ratings ?rows) example_tools 1 = Inr ?r"
    by (simp add: example_init)
  have l: "loc (example_ratings ?rows) 1 = Some [0, 0]" by (simp add: example_loc)
  have z: "all_zero [0, 0]" by (simp add: all_zero_def)
  have t: "map fst (head 2 (sort_values_desc
      (mean_frame (frame_columns (example_ratings ?rows))
         (frame_values (example_ratings ?rows))))) = [IntCell 20, IntCell 10]"
    by (simp add: example_ratings_fields cold_top)
  have p: "position ''tool_id'' (tools_columns (tools_df ?r)) = Some 0"
    by (simp add: example_recommender_fields example_tools_def)
  have c: "cold_start_recommendations ?r 2 =
     Inr [[(''tool_id'', IntCell 10), (''tool_name'', StrCell ''Alpha''),
           (''category'', StrCell ''stats'')],
          [(''tool_id'', IntCell 20), (''tool_name'', StrCell ''Beta''),
           (''category'', StrCell ''plots'')]]"
    unfolding cold_start_value [OF p]
    by (simp add: example_recommender_fields example_ratings_fields cold_top)
       (simp add: example_tools_def to_dict_records_def)
  have g: "get_recommendations ?r 1 2 = cold_start_recommendations ?r 2"
    by (simp add: get_recommendations_def example_recommender_fields l z)
  from i l z t c g show ?thesis by simp
qed

subsection \<open>A user who has rated every tool\<close>

text \<open>
  Claim C7. For a user of the matrix whose row has no zero entry,
  \<open>get_recommendations\<close> with \<open>n \<ge> 1\<close> returns the empty list.
\<close>

theorem fully_rated_user_gets_nothing:
  assumes "init uim tdf k = Inr r" and "wf_frame uim"
    and "loc uim user_id = Some row" and "all_nonzero row" and "1 \<le> n"
  shows "get_recommendations r user_id n = Inr []"
proof -
  from assms(1) have m: "user_item_matrix r = uim" and c: "frame_columns uim \<noteq> []"
    by (rule init_Inr, simp)+
  from assms(2,3) have "length row = length (frame_columns uim)" by (rule loc_length)
  with c have "row \<noteq> []" by auto
  with assms(4) have "\<not> all_zero row" using all_zero_nonzero_Nil by blast
  with assms(3,4,5) show ?thesis by (simp add: get_recommendations_def m)
qed

theorem fully_rated_user_gets_nothing_witness:
  "init (example_ratings [[4, 2], [1, 0]]) example_tools 1 =
     Inr (example_recommender [[4, 2], [1, 0]] 1) \<and>
   wf_frame (example_ratings [[4, 2], [1, 0]]) \<and>
   loc (example_ratings [[4, 2], [1, 0]]) 1 = Some [4, 2] \<and>
   all_nonzero [4, 2] \<and> (1::int) \<le> 3 \<and>
   get_recommendations (example_recommender [[4, 2], [1, 0]] 1) 1 3 = Inr []"
proof -
  let ?rows = "[[4, 2], [1, 0]] :: rat list list"
  have i: "init (example_ratings ?rows) example_tools 1 = Inr (example_recommender ?rows 1)"
    by (simp add: example_init)
  have w: "wf_frame (example_ratings ?rows)"
    by (simp add: wf_frame_def example_ratings_def)
  have l: "loc (example_ratings ?rows) 1 = Some [4, 2]"
    by (simp add: loc_def example_ratings_def)
  have z: "all_nonzero [4, 2]" by (simp add: all_nonzero_def)
  have n: "(1::int) \<le> 3" by simp
  from fully_rated_user_gets_nothing [OF i w l z n] i w l z n show ?thesis by (intro conjI)
qed

subsection \<open>A user with some ratings\<close>

lemma rated_above_zero_iff:
  assumes "length row = length (frame_columns m)"
  shows "rated_above_zero m row t \<longleftrightarrow> t \<in> set (user_rated_tools (frame_columns m) row)"
proof -
  have "t \<in> set (user_rated_tools (frame_columns m) row) \<longleftrightarrow>
          (\<exists>v. (t, v) \<in> set (zip (frame_columns m) row) \<and> v > 0)"
    by (force simp: user_rated_tools_def)
  also have "\<dots> \<longleftrightarrow> (\<exists>j<length (frame_columns m). frame_columns m ! j = t \<and> row ! j > 0)"
    using assms by (auto simp: set_zip)
  also have "\<dots> \<longleftrightarrow> rated_above_zero m row t"
    by (auto simp: rated_above_zero_def list_ex_iff)
  finally show ?thesis by simp
qed

lemma top_tool_ids_length: "length (top_tool_ids r row similar n) \<le> nat n"
  by (simp add: top_tool_ids_def Let_def head_def)

lemma top_tool_ids_unrated:
  assumes "t \<in> set (top_tool_ids r row similar n)"
  shows "t \<notin> set (user_rated_tools (frame_columns (user_item_matrix r)) row)"
proof -
  let ?rated = "user_rated_tools (frame_columns (user_item_matrix r)) row"
  let ?means = "mean_frame (frame_columns (user_item_matrix r)) (iloc (user_item_matrix r) similar)"
  from assms obtain v where "(t, v) \<in> set (head n (sort_values_desc (drop_labels ?rated ?means)))"
    by (auto simp: top_tool_ids_def Let_def)
  then have "(t, v) \<in> set (sort_values_desc (drop_labels ?rated ?means))"
    unfolding head_def by (rule in_set_takeD)
  then have "(t, v) \<in> set (drop_labels ?rated ?means)"
    by (simp add: sort_values_desc_def)
  then show ?thesis by (simp add: drop_labels_def)
qed

text \<open>
  Whenever \<open>get_recommendations\<close> returns for a user with some rating, it returns at most
  \<open>n\<close> records and none of a tool the user rated above zero.
\<close>

lemma recommendations_at_most_n_unrated:
  assumes "init uim tdf k = Inr r" and "wf_frame uim" and "loc uim user_id = Some row"
    and "\<not> all_zero row" and "1 \<le> n" and "get_recommendations r user_id n = Inr recs"
  shows "int (length recs) \<le> n"
    and "\<forall>d\<in>set recs. \<not> rated_above_zero uim row (dict_get d ''tool_id'')"
proof -
  from assms(1) have m: "user_item_matrix r = uim" by (rule init_Inr) simp
  from assms(2,3) have len: "length row = length (frame_columns uim)" by (rule loc_length)
  show "int (length recs) \<le> n"
  proof (cases "all_nonzero row")
    case True
    with assms(3,4,5,6) show ?thesis by (simp add: get_recommendations_def m)
  next
    case False
    with assms(3,4,5,6) obtain similar
      where res: "resolve_tools (tool_id_to_details r) (top_tool_ids r row similar n) = Inr recs"
      by (auto simp: get_recommendations_def m split: sum.splits)
    from resolve_tools_length [OF res] top_tool_ids_length [of r row similar n] assms(5)
    show ?thesis by linarith
  qed
  show "\<forall>d\<in>set recs. \<not> rated_above_zero uim row (dict_get d ''tool_id'')"
  proof (cases "all_nonzero row")
    case True
    with assms(3,4,5,6) show ?thesis by (simp add: get_recommendations_def m)
  next
    case False
    with assms(3,4,5,6) obtain similar
      where res: "resolve_tools (tool_id_to_details r) (top_tool_ids r row similar n) = Inr recs"
      by (auto simp: get_recommendations_def m split: sum.splits)
    show ?thesis
    proof
      fix d assume "d \<in> set recs"
      then have "dict_get d ''tool_id'' \<in> set (map (\<lambda>d. dict_get d ''tool_id'') recs)" by simp
      then have "dict_get d ''tool_id'' \<in> set (top_tool_ids r row similar n)"
        unfolding resolve_tools_ids [OF res] by simp
      then have "dict_get d ''tool_id'' \<notin> set (user_rated_tools (frame_columns uim) row)"
        using top_tool_ids_unrated [of _ r row similar n] by (simp add: m)
      then show "\<not> rated_above_zero uim row (dict_get d ''tool_id'')"
        by (simp add: rated_above_zero_iff [OF len])
    qed
  qed
qed

text \<open>
  Claim C5. The call does not return for every such user: with two users and \<open>k = 2\<close>,
  the call for the user with row \<open>[5, 0]\<close> asks the index for 3 neighbours and fails.
\<close>

theorem recommendations_raise_for_small_population:
  "init (example_ratings [[5, 0], [3, 4]]) example_tools 2 =
     Inr (example_recommender [[5, 0], [3, 4]] 2) \<and>
   wf_frame (example_ratings [[5, 0], [3, 4]]) \<and>
   loc (example_ratings [[5, 0], [3, 4]]) 1 = Some [5, 0] \<and> \<not> all_zero [5, 0] \<and>
   get_recommendations (example_recommender [[5, 0], [3, 4]] 2) 1 3 =
     Inl (ValueError (TooManyNeighbors 3 2))"
proof -
  let ?rows = "[[5, 0], [3, 4]] :: rat list list"
  let ?r = "example_recommender ?rows 2"
  have i: "init (example_ratings ?rows) example_tools 2 = Inr ?r"
    by (simp add: example_init)
  have w: "wf_frame (example_ratings ?rows)" by (simp add: example_wf)
  have l: "loc (example_ratings ?rows) 1 = Some [5, 0]" by (simp add: example_loc)
  have z: "\<not> all_zero [5, 0]" "\<not> all_nonzero [5, 0]"
    by (simp_all add: all_zero_def all_nonzero_def)
  have t: "recs_similar_users ?r [5, 0] = Inl (ValueError (TooManyNeighbors 3 2))"
    by (simp add: recs_similar_users_def recs_neighbor_request_def example_recommender_fields
          kneighbors_def)
  have h: "get_recommendations ?r 1 3 = Inl (ValueError (TooManyNeighbors 3 2))"
    by (simp add: get_recommendations_def example_recommender_fields l z t)
  from i w l z(1) h show ?thesis by (intro conjI)
qed

subsection \<open>The shape of the records\<close>





end
